theory Spec2Isabelle
  imports Main "HOL-Library.Sublist"
begin

section \<open>Strings\<close>

text \<open>
  Python strings are modelled as \<^typ>\<open>string\<close>: a character is a code point from 0 to
  255, the Latin-1 part of Unicode.
  \<^verbatim>\<open>needle in haystack\<close> on two strings is \<^const>\<open>sublist\<close>: the needle occurs
  as a contiguous run of characters. \<^verbatim>\<open>any(p(k) for k in ks)\<close> is \<^const>\<open>list_ex\<close>.
\<close>

abbreviation nl :: string where
  "nl \<equiv> [CHR 0x0A]"

text \<open>\<^verbatim>\<open>str.lower()\<close> on these code points: the capital letters, which are A to Z
  (65 to 90) and the accented capitals 192 to 222 without the multiplication sign 215,
  move to their small letters 32 code points later; every other character stays.\<close>

definition lower_char :: "char \<Rightarrow> char" where
  "lower_char c =
     (let n = (of_char c :: nat)
      in if (65 \<le> n \<and> n \<le> 90) \<or> (192 \<le> n \<and> n \<le> 222 \<and> n \<noteq> 215)
         then char_of (n + 32) else c)"

definition lower :: "string \<Rightarrow> string" where
  "lower s = map lower_char s"

section \<open>Prompt templates (prompt\_templates.py)\<close>

text \<open>
  A \<^verbatim>\<open>PromptTemplate\<close> with the input variables \<^verbatim>\<open>context\<close> and \<^verbatim>\<open>question\<close>: the
  template text is kept as the three pieces around the placeholders \<^verbatim>\<open>{context}\<close> and
  \<^verbatim>\<open>{question}\<close>, which occur once each and in this order in all four templates.
\<close>

record prompt_template =
  before_context :: string
  between :: string
  after_question :: string

definition format_prompt :: "prompt_template \<Rightarrow> string \<Rightarrow> string \<Rightarrow> string" where
  "format_prompt t context question =
     before_context t @ context @ between t @ question @ after_question t"

definition BASIC_QA_TEMPLATE :: prompt_template where
  "BASIC_QA_TEMPLATE = \<lparr>
     before_context =
       nl @
       ''You are a helpful AI assistant that answers questions based on the provided context. '' @ nl @
       ''Your task is to provide accurate, factual answers using only the information given in the context.'' @ nl @
       nl @
       ''IMPORTANT RULES:'' @ nl @
       ''1. Only use information from the provided context'' @ nl @
       ''2. If the context doesn't contain enough information to answer the question, say '' @ [CHR 0x22] @ ''I cannot answer this question based on the provided context'' @ [CHR 0x22] @ nl @
       ''3. Be specific and include relevant numbers, dates, and facts when available'' @ nl @
       ''4. Cite the source of information when possible'' @ nl @
       ''5. If the question is ambiguous, ask for clarification'' @ nl @
       nl @
       ''Context: '',
     between =
       nl @
       nl @
       ''Question: '',
     after_question =
       nl @
       nl @
       ''Answer:''
   \<rparr>"

definition FINANCIAL_TEMPLATE :: prompt_template where
  "FINANCIAL_TEMPLATE = \<lparr>
     before_context =
       nl @
       ''You are a financial analyst assistant. Analyze the provided financial context and answer questions with precision.'' @ nl @
       nl @
       ''ANALYSIS GUIDELINES:'' @ nl @
       ''1. Always include specific numbers, percentages, and dates'' @ nl @
       ''2. Compare figures when relevant (year-over-year, quarter-over-quarter)'' @ nl @
       ''3. Identify trends and patterns in the data'' @ nl @
       ''4. Use financial terminology appropriately'' @ nl @
       ''5. If asked for calculations, show your reasoning'' @ nl @
       ''6. Highlight any significant changes or anomalies'' @ nl @
       nl @
       ''Context: '',
     between =
       nl @
       nl @
       ''Question: '',
     after_question =
       nl @
       nl @
       ''Analysis:''
   \<rparr>"

definition SUMMARY_TEMPLATE :: prompt_template where
  "SUMMARY_TEMPLATE = \<lparr>
     before_context =
       nl @
       ''You are a document summarization expert. Create concise, well-structured summaries based on the provided context.'' @ nl @
       nl @
       ''SUMMARIZATION RULES:'' @ nl @
       ''1. Focus on key points and main ideas'' @ nl @
       ''2. Use bullet points for better readability'' @ nl @
       ''3. Include important numbers and dates'' @ nl @
       ''4. Maintain logical flow and structure'' @ nl @
       ''5. Keep summaries concise but comprehensive'' @ nl @
       ''6. Highlight the most relevant information'' @ nl @
       nl @
       ''Context: '',
     between =
       nl @
       nl @
       ''Question: '',
     after_question =
       nl @
       nl @
       ''Summary:''
   \<rparr>"

definition COMPARISON_TEMPLATE :: prompt_template where
  "COMPARISON_TEMPLATE = \<lparr>
     before_context =
       nl @
       ''You are a comparison analysis expert. When comparing items in the context, provide structured analysis.'' @ nl @
       nl @
       ''COMPARISON GUIDELINES:'' @ nl @
       ''1. Create clear side-by-side comparisons'' @ nl @
       ''2. Use tables or structured formats when helpful'' @ nl @
       ''3. Identify similarities and differences'' @ nl @
       ''4. Highlight key differentiators'' @ nl @
       ''5. Provide objective analysis'' @ nl @
       ''6. Include relevant metrics and data points'' @ nl @
       nl @
       ''Context: '',
     between =
       nl @
       nl @
       ''Question: '',
     after_question =
       nl @
       nl @
       ''Comparison:''
   \<rparr>"

section \<open>Query routing (rag\_engine.py)\<close>

definition financial_keywords :: "string list" where
  "financial_keywords =
     [''revenue'', ''profit'', ''earnings'', ''financial'', ''income'', ''sales'',
      ''growth'', ''percentage'', ''%'']"

definition summary_keywords :: "string list" where
  "summary_keywords = [''summarize'', ''summary'', ''overview'', ''brief'', ''main points'']"

definition comparison_keywords :: "string list" where
  "comparison_keywords =
     [''compare'', ''versus'', ''vs'', ''difference'', ''similar'', ''different'']"

text \<open>\<^verbatim>\<open>RAGEngine._select_template\<close>. The dictionary \<^verbatim>\<open>self.templates\<close> is filled once
  in \<^verbatim>\<open>__init__\<close> and binds the keys basic, financial, summary and comparison to the four
  template constants, so each lookup is written as the constant it yields.\<close>

definition select_template :: "string \<Rightarrow> prompt_template" where
  "select_template question =
     (let question_lower = lower question in
      if list_ex (\<lambda>keyword. sublist keyword question_lower) financial_keywords
        then FINANCIAL_TEMPLATE
      else if list_ex (\<lambda>keyword. sublist keyword question_lower) summary_keywords
        then SUMMARY_TEMPLATE
      else if list_ex (\<lambda>keyword. sublist keyword question_lower) comparison_keywords
        then COMPARISON_TEMPLATE
      else BASIC_QA_TEMPLATE)"

text \<open>The dictionary \<^verbatim>\<open>file_indicators\<close>; a Python dictionary is iterated in insertion
  order, so it is an association list.\<close>

definition file_indicators :: "(string \<times> string list) list" where
  "file_indicators =
     [(''resume'', [''resume'', ''cv'', ''my resume'', ''my cv'']),
      (''nike'', [''nike'', ''10k'', ''10-k'', ''annual report'']),
      (''research'', [''research'', ''research report'']),
      (''business plan'', [''business plan'', ''cozad'', ''plan''])]"

text \<open>The loop \<^verbatim>\<open>for file_type, keywords in file_indicators.items()\<close> with its early
  return; falling off the end returns \<^verbatim>\<open>None\<close>.\<close>

fun first_indicator :: "string \<Rightarrow> (string \<times> string list) list \<Rightarrow> string option" where
  "first_indicator question_lower [] = None"
| "first_indicator question_lower ((file_type, keywords) # rest) =
     (if list_ex (\<lambda>keyword. sublist keyword question_lower) keywords
      then Some file_type
      else first_indicator question_lower rest)"

definition extract_file_filter :: "string \<Rightarrow> string option" where
  "extract_file_filter question = first_indicator (lower question) file_indicators"

subsection \<open>The router as the specification words it\<close>

text \<open>The case of letters, as a table: every capital letter with its small letter below
  it. Two characters are equal up to case when they are equal after each capital letter
  is replaced by its small letter.\<close>

definition spec_capitals :: string where
  "spec_capitals = ''ABCDEFGHIJKLMNOPQRSTUVWXYZ'' @
     [CHR 0xC0, CHR 0xC1, CHR 0xC2, CHR 0xC3, CHR 0xC4, CHR 0xC5, CHR 0xC6, CHR 0xC7,
      CHR 0xC8, CHR 0xC9, CHR 0xCA, CHR 0xCB, CHR 0xCC, CHR 0xCD, CHR 0xCE, CHR 0xCF,
      CHR 0xD0, CHR 0xD1, CHR 0xD2, CHR 0xD3, CHR 0xD4, CHR 0xD5, CHR 0xD6,
      CHR 0xD8, CHR 0xD9, CHR 0xDA, CHR 0xDB, CHR 0xDC, CHR 0xDD, CHR 0xDE]"

definition spec_smalls :: string where
  "spec_smalls = ''abcdefghijklmnopqrstuvwxyz'' @
     [CHR 0xE0, CHR 0xE1, CHR 0xE2, CHR 0xE3, CHR 0xE4, CHR 0xE5, CHR 0xE6, CHR 0xE7,
      CHR 0xE8, CHR 0xE9, CHR 0xEA, CHR 0xEB, CHR 0xEC, CHR 0xED, CHR 0xEE, CHR 0xEF,
      CHR 0xF0, CHR 0xF1, CHR 0xF2, CHR 0xF3, CHR 0xF4, CHR 0xF5, CHR 0xF6,
      CHR 0xF8, CHR 0xF9, CHR 0xFA, CHR 0xFB, CHR 0xFC, CHR 0xFD, CHR 0xFE]"

definition spec_fold_case :: "char \<Rightarrow> char" where
  "spec_fold_case c =
     (case map_of (zip spec_capitals spec_smalls) c of None \<Rightarrow> c | Some d \<Rightarrow> d)"

text \<open>A keyword matches a text as a case-insensitive substring when some contiguous
  part of the text equals the keyword up to the case of its letters.\<close>

definition spec_ci_substring :: "string \<Rightarrow> string \<Rightarrow> bool" where
  "spec_ci_substring kw text =
     (\<exists>u. sublist u text \<and> map spec_fold_case u = map spec_fold_case kw)"

datatype style = Basic | Financial | Summary | Comparison

text \<open>The three keyword sets of the specification, in its priority order; \<^const>\<open>Basic\<close> has
  no keywords and is the default.\<close>

definition spec_style_rules :: "(style \<times> string list) list" where
  "spec_style_rules =
     [(Financial, [''revenue'', ''profit'', ''earnings'', ''financial'', ''income'',
                   ''sales'', ''growth'', ''percentage'', ''%'']),
      (Summary, [''summarize'', ''summary'', ''overview'', ''brief'', ''main points'']),
      (Comparison, [''compare'', ''versus'', ''vs'', ''difference'', ''similar'',
                    ''different''])]"

definition spec_group_matches :: "string \<Rightarrow> string list \<Rightarrow> bool" where
  "spec_group_matches question kws = (\<exists>kw \<in> set kws. spec_ci_substring kw question)"

definition spec_route_style :: "string \<Rightarrow> style" where
  "spec_route_style question =
     (case find (\<lambda>rule. spec_group_matches question (snd rule)) spec_style_rules of
        None \<Rightarrow> Basic
      | Some rule \<Rightarrow> fst rule)"

fun template_of_style :: "style \<Rightarrow> prompt_template" where
  "template_of_style Basic = BASIC_QA_TEMPLATE"
| "template_of_style Financial = FINANCIAL_TEMPLATE"
| "template_of_style Summary = SUMMARY_TEMPLATE"
| "template_of_style Comparison = COMPARISON_TEMPLATE"

definition spec_route_scope :: "string \<Rightarrow> string option" where
  "spec_route_scope question =
     map_option fst (find (\<lambda>group. spec_group_matches question (snd group)) file_indicators)"

section \<open>Documents\<close>

text \<open>A langchain \<^verbatim>\<open>Document\<close>: its text and the two metadata entries the code reads,
  \<^verbatim>\<open>metadata.get("source_file")\<close> and \<^verbatim>\<open>metadata.get("page")\<close>; \<^const>\<open>None\<close> is an
  absent key.\<close>

record document =
  page_content :: string
  meta_source_file :: "string option"
  meta_page :: "int option"

section \<open>The index store and its environment (embedding\_manager.py)\<close>

text \<open>A raised Python exception; the string is \<^verbatim>\<open>str(e)\<close>.\<close>

datatype exn = Exn string

fun str_exn :: "exn \<Rightarrow> string" where
  "str_exn (Exn msg) = msg"

text \<open>The calls that leave the process: the file system, the clock, and the Chroma
  client.\<close>

datatype call =
    Rmtree | Mkdir | PersistentClient | TimeTime
  | FromDocuments string nat | ListCollections | OpenCollection string | GetCollection string
  | CountItems string

text \<open>
  The state outside the manager: whether the index directory exists, the collections
  persisted in it (name and item count, in the order the client enumerates them), the
  external calls made so far, and the lines printed so far.
\<close>

record world =
  dir_exists :: bool
  collections :: "(string \<times> nat) list"
  calls :: "call list"
  stdout :: "string list"

text \<open>
  What the manager cannot control: \<open>fault n\<close> is the exception raised by the external
  call number \<open>n\<close> (counted from 0 over \<^const>\<open>calls\<close>), if any; \<open>clock n\<close> is
  \<^verbatim>\<open>int(time.time())\<close> when read by call number \<open>n\<close>; \<open>chroma_dir\<close> is the text of the
  path \<^verbatim>\<open>CHROMA_DB_DIR\<close>, which depends on where the project is installed.
  A call that raises changes nothing but the record of calls.
\<close>

record env =
  fault :: "nat \<Rightarrow> exn option"
  clock :: "nat \<Rightarrow> nat"
  chroma_dir :: string

datatype client = Client

text \<open>The handle \<^verbatim>\<open>Chroma\<close> returns: the collection it reads and writes.\<close>

record vectorstore_handle =
  collection_name :: string

definition print_line :: "string \<Rightarrow> world \<Rightarrow> world" where
  "print_line s w = w\<lparr>stdout := stdout w @ [s]\<rparr>"

definition external :: "env \<Rightarrow> call \<Rightarrow> world \<Rightarrow> exn option \<times> world" where
  "external env c w = (fault env (length (calls w)), w\<lparr>calls := calls w @ [c]\<rparr>)"

text \<open>Decimal text of a natural number, as an f-string prints it.\<close>

fun show_nat :: "nat \<Rightarrow> string" where
  "show_nat n =
     (if n < 10 then [char_of (48 + n)] else show_nat (n div 10) @ [char_of (48 + n mod 10)])"

declare show_nat.simps [simp del]

text \<open>\<^verbatim>\<open>shutil.rmtree(self.chroma_dir)\<close>: the directory and every collection in it go.\<close>

definition rmtree :: "env \<Rightarrow> world \<Rightarrow> (exn + unit) \<times> world" where
  "rmtree env w =
     (case external env Rmtree w of
        (Some e, w1) \<Rightarrow> (Inl e, w1)
      | (None, w1) \<Rightarrow> (Inr (), w1\<lparr>dir_exists := False, collections := []\<rparr>))"

text \<open>\<^verbatim>\<open>self.chroma_dir.mkdir(parents=True, exist_ok=True)\<close>.\<close>

definition mkdir :: "env \<Rightarrow> world \<Rightarrow> (exn + unit) \<times> world" where
  "mkdir env w =
     (case external env Mkdir w of
        (Some e, w1) \<Rightarrow> (Inl e, w1)
      | (None, w1) \<Rightarrow> (Inr (), w1\<lparr>dir_exists := True\<rparr>))"

text \<open>\<^verbatim>\<open>chromadb.PersistentClient(path=...)\<close> opens the store under the directory,
  creating the directory when it is missing.\<close>

definition persistent_client :: "env \<Rightarrow> world \<Rightarrow> (exn + client) \<times> world" where
  "persistent_client env w =
     (case external env PersistentClient w of
        (Some e, w1) \<Rightarrow> (Inl e, w1)
      | (None, w1) \<Rightarrow> (Inr Client, w1\<lparr>dir_exists := True\<rparr>))"

text \<open>\<^verbatim>\<open>int(time.time())\<close>.\<close>

definition time_time :: "env \<Rightarrow> world \<Rightarrow> nat \<times> world" where
  "time_time env w = (clock env (length (calls w)), w\<lparr>calls := calls w @ [TimeTime]\<rparr>)"

text \<open>Adding \<open>n\<close> items to the collection \<open>name\<close>, which is created at the end of the
  enumeration when the store does not have it (Chroma's get-or-create).\<close>

fun add_items :: "string \<Rightarrow> nat \<Rightarrow> (string \<times> nat) list \<Rightarrow> (string \<times> nat) list" where
  "add_items name n [] = [(name, n)]"
| "add_items name n ((c, k) # cs) =
     (if c = name then (c, k + n) # cs else (c, k) # add_items name n cs)"

text \<open>\<^verbatim>\<open>Chroma.from_documents(documents, embedding, client, collection_name)\<close>: embeds the
  documents and stores them in the named collection.\<close>

definition from_documents ::
  "env \<Rightarrow> document list \<Rightarrow> client \<Rightarrow> string \<Rightarrow> world \<Rightarrow> (exn + vectorstore_handle) \<times> world" where
  "from_documents env documents cl name w =
     (case external env (FromDocuments name (length documents)) w of
        (Some e, w1) \<Rightarrow> (Inl e, w1)
      | (None, w1) \<Rightarrow>
          (Inr \<lparr>collection_name = name\<rparr>,
           w1\<lparr>collections := add_items name (length documents) (collections w1)\<rparr>))"

text \<open>\<^verbatim>\<open>client.list_collections()\<close>, reduced to the names.\<close>

definition list_collections :: "env \<Rightarrow> client \<Rightarrow> world \<Rightarrow> (exn + string list) \<times> world" where
  "list_collections env cl w =
     (case external env ListCollections w of
        (Some e, w1) \<Rightarrow> (Inl e, w1)
      | (None, w1) \<Rightarrow> (Inr (map fst (collections w1)), w1))"

text \<open>The constructor \<^verbatim>\<open>Chroma(client, collection_name, embedding_function)\<close>.\<close>

definition open_collection ::
  "env \<Rightarrow> client \<Rightarrow> string \<Rightarrow> world \<Rightarrow> (exn + vectorstore_handle) \<times> world" where
  "open_collection env cl name w =
     (case external env (OpenCollection name) w of
        (Some e, w1) \<Rightarrow> (Inl e, w1)
      | (None, w1) \<Rightarrow>
          (Inr \<lparr>collection_name = name\<rparr>, w1\<lparr>collections := add_items name 0 (collections w1)\<rparr>))"

text \<open>\<^verbatim>\<open>client.get_collection(name)\<close> raises for a name the store does not have.\<close>

definition get_collection :: "env \<Rightarrow> client \<Rightarrow> string \<Rightarrow> world \<Rightarrow> (exn + string) \<times> world" where
  "get_collection env cl name w =
     (case external env (GetCollection name) w of
        (Some e, w1) \<Rightarrow> (Inl e, w1)
      | (None, w1) \<Rightarrow>
          (case map_of (collections w1) name of
             None \<Rightarrow> (Inl (Exn (''Collection '' @ name @ '' does not exist.'')), w1)
           | Some k \<Rightarrow> (Inr name, w1)))"

text \<open>\<^verbatim>\<open>collection.count()\<close>.\<close>

definition count_items :: "env \<Rightarrow> string \<Rightarrow> world \<Rightarrow> (exn + nat) \<times> world" where
  "count_items env name w =
     (case external env (CountItems name) w of
        (Some e, w1) \<Rightarrow> (Inl e, w1)
      | (None, w1) \<Rightarrow>
          (case map_of (collections w1) name of
             None \<Rightarrow> (Inl (Exn (''Collection '' @ name @ '' does not exist.'')), w1)
           | Some k \<Rightarrow> (Inr k, w1)))"

text \<open>\<^verbatim>\<open>EmbeddingManager._clear_chroma_db\<close>: every exception is caught and turned into the
  result \<^const>\<open>False\<close>. (\<^verbatim>\<open>gc.collect()\<close> has no effect on the state modelled here.)\<close>

definition clear_chroma_db :: "env \<Rightarrow> world \<Rightarrow> bool \<times> world" where
  "clear_chroma_db env w =
     (case (if dir_exists w
            then (case rmtree env w of
                    (Inl e, w1) \<Rightarrow> (Inl e, w1)
                  | (Inr u, w1) \<Rightarrow>
                      (Inr (), print_line (''Cleared ChromaDB at '' @ chroma_dir env) w1))
            else (Inr (), w)) of
        (Inl e, w1) \<Rightarrow> (False, print_line (''Error clearing ChromaDB: '' @ str_exn e) w1)
      | (Inr u, w1) \<Rightarrow>
          (case mkdir env w1 of
             (Inl e, w2) \<Rightarrow> (False, print_line (''Error clearing ChromaDB: '' @ str_exn e) w2)
           | (Inr u, w2) \<Rightarrow> (True, w2)))"

text \<open>\<^verbatim>\<open>EmbeddingManager._create_chroma_client\<close>: when the client cannot be created, the
  store is cleared and the client is created once more, this time unguarded.\<close>

definition create_chroma_client :: "env \<Rightarrow> world \<Rightarrow> (exn + client) \<times> world" where
  "create_chroma_client env w =
     (case persistent_client env w of
        (Inr cl, w1) \<Rightarrow> (Inr cl, w1)
      | (Inl e, w1) \<Rightarrow>
          (let w2 = print_line (''Error creating ChromaDB client: '' @ str_exn e) w1;
               (cleared, w3) = clear_chroma_db env w2
           in persistent_client env w3))"

text \<open>The statements of the two \<^verbatim>\<open>try\<close> blocks of \<^verbatim>\<open>create_embeddings\<close>, which are the same
  up to what they print at the end: clear the store, create a client, name the collection
  after the clock, build it.\<close>

definition build_vectorstore ::
  "env \<Rightarrow> document list \<Rightarrow> world \<Rightarrow> (exn + vectorstore_handle) \<times> world" where
  "build_vectorstore env documents w =
     (let (cleared, w1) = clear_chroma_db env w in
      case create_chroma_client env w1 of
        (Inl e, w2) \<Rightarrow> (Inl e, w2)
      | (Inr cl, w2) \<Rightarrow>
          (let (t, w3) = time_time env w2;
               name = ''documents_'' @ show_nat t
           in from_documents env documents cl name w3))"

text \<open>\<^verbatim>\<open>EmbeddingManager.create_embeddings\<close>. The result is \<open>Inl e\<close> when the call raises
  \<open>e\<close>, \<open>Inr None\<close> when it returns \<^verbatim>\<open>None\<close>, and \<open>Inr (Some h)\<close> when it returns a
  vector store.\<close>

definition create_embeddings ::
  "env \<Rightarrow> document list \<Rightarrow> world \<Rightarrow> (exn + vectorstore_handle option) \<times> world" where
  "create_embeddings env documents w =
     (if documents = [] then (Inr None, print_line ''No documents to process'' w)
      else
        let w0 = print_line (''Creating embeddings for '' @ show_nat (length documents)
                   @ '' documents...'') w
        in case build_vectorstore env documents w0 of
             (Inr vs, w1) \<Rightarrow>
               (Inr (Some vs),
                print_line (''Successfully created embeddings and stored in '' @ chroma_dir env) w1)
           | (Inl e, w1) \<Rightarrow>
               (let w2 = print_line ''Attempting complete reset...''
                           (print_line (''Error creating embeddings: '' @ str_exn e) w1)
                in case build_vectorstore env documents w2 of
                     (Inr vs, w3) \<Rightarrow>
                       (Inr (Some vs),
                        print_line ''Successfully created embeddings after reset'' w3)
                   | (Inl e2, w3) \<Rightarrow>
                       (Inl e2,
                        print_line (''Failed to create embeddings after reset: '' @ str_exn e2)
                          w3)))"

text \<open>The body of the \<^verbatim>\<open>try\<close> block of \<^verbatim>\<open>load_existing_vectorstore\<close>.\<close>

definition load_try :: "env \<Rightarrow> world \<Rightarrow> (exn + vectorstore_handle option) \<times> world" where
  "load_try env w =
     (case create_chroma_client env w of
        (Inl e, w1) \<Rightarrow> (Inl e, w1)
      | (Inr cl, w1) \<Rightarrow>
          (case list_collections env cl w1 of
             (Inl e, w2) \<Rightarrow> (Inl e, w2)
           | (Inr [], w2) \<Rightarrow> (Inr None, print_line ''No existing collections found'' w2)
           | (Inr (name # others), w2) \<Rightarrow>
               (case open_collection env cl name w2 of
                  (Inl e, w3) \<Rightarrow> (Inl e, w3)
                | (Inr vs, w3) \<Rightarrow>
                    (case get_collection env cl name w3 of
                       (Inl e, w4) \<Rightarrow> (Inl e, w4)
                     | (Inr coll, w4) \<Rightarrow>
                         (case count_items env coll w4 of
                            (Inl e, w5) \<Rightarrow> (Inl e, w5)
                          | (Inr n, w5) \<Rightarrow>
                              (Inr (Some vs),
                               print_line (''Loaded existing vectorstore with '' @ show_nat n
                                 @ '' documents'') w5))))))"

text \<open>\<^verbatim>\<open>EmbeddingManager.load_existing_vectorstore\<close>: the \<^verbatim>\<open>except\<close> clause turns every
  exception into the result \<^verbatim>\<open>None\<close>, so the function has no exceptional result.\<close>

definition load_existing_vectorstore :: "env \<Rightarrow> world \<Rightarrow> vectorstore_handle option \<times> world" where
  "load_existing_vectorstore env w =
     (case load_try env w of
        (Inr r, w1) \<Rightarrow> (r, w1)
      | (Inl e, w1) \<Rightarrow> (None, print_line (''Error loading existing vectorstore: '' @ str_exn e) w1))"

text \<open>An environment in which no external call fails and the clock stands at
  1700, and a store that holds nothing yet.\<close>

definition calm_env :: env where
  "calm_env = \<lparr>fault = (\<lambda>n. None), clock = (\<lambda>n. 1700), chroma_dir = ''data/chroma_db''\<rparr>"

definition fresh_world :: world where
  "fresh_world = \<lparr>dir_exists = True, collections = [], calls = [], stdout = []\<rparr>"

section \<open>Answering a question (rag\_engine.py)\<close>

text \<open>A value that is either a string or an integer, for the \<^verbatim>\<open>page\<close> entry of a source:
  the page number, or the text \<^verbatim>\<open>"Unknown"\<close>.\<close>

datatype pyval = PyStr string | PyInt int

text \<open>One entry of the \<^verbatim>\<open>sources\<close> list and the dictionary \<^verbatim>\<open>ask_question\<close> returns.\<close>

record source_entry =
  content :: string
  source :: string
  page :: pyval

record outcome =
  answer :: string
  sources :: "source_entry list"
  question :: string
  template_used :: string
  file_filter :: "string option"

text \<open>
  The engine holds the vector store and the language model. The vector store is \<^const>\<open>None\<close>
  when the engine was built from the \<^verbatim>\<open>None\<close> that \<^verbatim>\<open>create_embeddings\<close> can return;
  otherwise it is its similarity search, from the number \<open>k\<close> of results asked for and
  the query to the retrieved documents. Both the search and the model can raise.
\<close>

record engine =
  vectorstore :: "(nat \<Rightarrow> string \<Rightarrow> exn + document list) option"
  llm :: "string \<Rightarrow> exn + string"

text \<open>Joining strings with a separator, \<^verbatim>\<open>sep.join(parts)\<close>.\<close>

fun join :: "string \<Rightarrow> string list \<Rightarrow> string" where
  "join sep [] = []"
| "join sep [s] = s"
| "join sep (s # t # rest) = s @ sep @ join sep (t # rest)"

text \<open>
  langchain's \<^verbatim>\<open>RetrievalQA\<close> chain of type \<^verbatim>\<open>"stuff"\<close> with
  \<^verbatim>\<open>return_source_documents=True\<close>, called on a query: it asks the retriever for the
  documents, joins their texts with a blank line into the context, fills the prompt with
  the context and the query, gives the filled prompt to the model, and returns the model's
  text together with the retrieved documents.
\<close>

definition stuff_documents :: "document list \<Rightarrow> string" where
  "stuff_documents docs = join (nl @ nl) (map page_content docs)"

definition retrieval_qa ::
  "(string \<Rightarrow> exn + string) \<Rightarrow> prompt_template \<Rightarrow> (string \<Rightarrow> exn + document list) \<Rightarrow> string
     \<Rightarrow> exn + string \<times> document list" where
  "retrieval_qa model prompt retriever query =
     (case retriever query of
        Inl e \<Rightarrow> Inl e
      | Inr docs \<Rightarrow>
          (case model (format_prompt prompt (stuff_documents docs) query) of
             Inl e \<Rightarrow> Inl e
           | Inr result \<Rightarrow> Inr (result, docs)))"

text \<open>Python's truth value of an optional string: \<^verbatim>\<open>None\<close> and the empty string are
  false.\<close>

fun truthy :: "string option \<Rightarrow> bool" where
  "truthy None = False"
| "truthy (Some s) = (s \<noteq> [])"

text \<open>The loop that collects \<^verbatim>\<open>filtered_sources\<close>.\<close>

definition filtered_sources :: "string \<Rightarrow> document list \<Rightarrow> document list" where
  "filtered_sources ff source_documents =
     filter (\<lambda>doc. sublist (lower ff)
                 (lower (case meta_source_file doc of None \<Rightarrow> [] | Some s \<Rightarrow> s)))
       source_documents"

text \<open>One formatted source.\<close>

definition format_source :: "document \<Rightarrow> source_entry" where
  "format_source doc =
     \<lparr>content = take 200 (page_content doc) @ ''...'',
      source = (case meta_source_file doc of None \<Rightarrow> ''Unknown'' | Some s \<Rightarrow> s),
      page = (case meta_page doc of None \<Rightarrow> PyStr ''Unknown'' | Some n \<Rightarrow> PyInt n)\<rparr>"

text \<open>The first statement of \<^verbatim>\<open>ask_question\<close>: the filter of the caller, or the one
  extracted from the question when the caller gave none.\<close>

definition resolve_filter :: "string \<Rightarrow> string option \<Rightarrow> string option" where
  "resolve_filter q ff = (if \<not> truthy ff then extract_file_filter q else ff)"

text \<open>The body of the \<^verbatim>\<open>try\<close> block of \<^verbatim>\<open>ask_question\<close>, after the filter is resolved.
  \<^verbatim>\<open>template.__class__.__name__\<close> is the name of the class of every template.\<close>

definition ask_try :: "engine \<Rightarrow> string \<Rightarrow> string option \<Rightarrow> exn + outcome" where
  "ask_try eng q ff =
     (let template = select_template q;
          k = (if truthy ff then 8 else 6)
      in case (case vectorstore eng of
                 None \<Rightarrow>
                   Inl (Exn ([CHR 0x27] @ ''NoneType'' @ [CHR 0x27]
                     @ '' object has no attribute '' @ [CHR 0x27] @ ''as_retriever''
                     @ [CHR 0x27]))
               | Some search \<Rightarrow> retrieval_qa (llm eng) template (search k) q) of
           Inl e \<Rightarrow> Inl e
         | Inr (result, source_documents) \<Rightarrow>
             Inr \<lparr>answer = result,
                  sources = map format_source
                    (case ff of
                       None \<Rightarrow> source_documents
                     | Some f \<Rightarrow>
                         if f = [] then source_documents
                         else if filtered_sources f source_documents \<noteq> []
                           then filtered_sources f source_documents
                         else source_documents),
                  question = q,
                  template_used = ''PromptTemplate'',
                  file_filter = ff\<rparr>)"

text \<open>\<^verbatim>\<open>RAGEngine.ask_question\<close>: the \<^verbatim>\<open>except\<close> clause turns every exception of the body
  into a result.\<close>

definition ask_question :: "engine \<Rightarrow> string \<Rightarrow> string option \<Rightarrow> outcome" where
  "ask_question eng q ff0 =
     (let ff = resolve_filter q ff0 in
      case ask_try eng q ff of
        Inr r \<Rightarrow> r
      | Inl e \<Rightarrow>
          \<lparr>answer = ''Error processing question: '' @ str_exn e,
           sources = [],
           question = q,
           template_used = ''error'',
           file_filter = ff\<rparr>)"

text \<open>Two retrieved chunks, one of the Nike report and one of a resume; an engine whose
  search returns both and whose model answers with the very prompt it was given; and an
  engine whose model is unreachable.\<close>

definition nike_chunk :: document where
  "nike_chunk =
     \<lparr>page_content = ''Revenues were 51.2 billion.'',
      meta_source_file = Some ''data/documents/Nike-10K.pdf'', meta_page = Some 31\<rparr>"

definition resume_chunk :: document where
  "resume_chunk =
     \<lparr>page_content = ''Five years of experience.'',
      meta_source_file = Some ''data/documents/resume.pdf'', meta_page = Some 0\<rparr>"

text \<open>A chunk of a file whose name is the word resume written with the accented small
  letter e, code point 233, in both places.\<close>

definition cv_chunk :: document where
  "cv_chunk =
     \<lparr>page_content = ''Education and skills.'',
      meta_source_file = Some (''data/documents/r'' @ [CHR 0xE9] @ ''sum'' @ [CHR 0xE9] @ ''.pdf''),
      meta_page = Some 0\<rparr>"

definition echo_engine :: engine where
  "echo_engine =
     \<lparr>vectorstore = Some (\<lambda>k query. Inr (take k [nike_chunk, resume_chunk])),
      llm = (\<lambda>prompt. Inr prompt)\<rparr>"

definition offline_engine :: engine where
  "offline_engine =
     \<lparr>vectorstore = Some (\<lambda>k query. Inr (take k [nike_chunk, resume_chunk])),
      llm = (\<lambda>prompt. Inl (Exn ''Connection refused''))\<rparr>"

text \<open>A store whose only generation holds no items.\<close>

definition hollow_world :: world where
  "hollow_world =
     \<lparr>dir_exists = True, collections = [(''documents_1'', 0)], calls = [], stdout = []\<rparr>"

text \<open>The source path of a chunk as the filter reads it,
  \<^verbatim>\<open>doc.metadata.get("source_file", "")\<close>.\<close>

definition source_path :: "document \<Rightarrow> string" where
  "source_path doc = (case meta_source_file doc of None \<Rightarrow> [] | Some s \<Rightarrow> s)"

text \<open>The calls that build a generation.\<close>

fun is_from_documents :: "call \<Rightarrow> bool" where
  "is_from_documents (FromDocuments name n) = True"
| "is_from_documents c = False"

text \<open>How often the manager has announced a reset so far, and how many builds of a
  generation it has started so far.\<close>

definition resets_announced :: "world \<Rightarrow> nat" where
  "resets_announced w = count_list (stdout w) ''Attempting complete reset...''"

definition builds_started :: "world \<Rightarrow> nat" where
  "builds_started w = length (filter is_from_documents (calls w))"







section \<open>Properties of the router\<close>

text \<open>The arithmetic of \<^const>\<open>lower_char\<close> and the table of letters agree on every
  character.\<close>

lemma capitals_fold: "list_all (\<lambda>c. lower_char c = spec_fold_case c) spec_capitals"
  by code_simp

lemma capital_codes:
  "list_all (\<lambda>n. char_of n \<in> set spec_capitals) ([65..<91] @ [192..<215] @ [216..<223])"
  by code_simp

lemma capitals_smalls_length: "length spec_capitals = length spec_smalls"
  by (simp add: spec_capitals_def spec_smalls_def)

lemma lower_char_table: "lower_char c = spec_fold_case c"
proof (cases "c \<in> set spec_capitals")
  case True
  with capitals_fold show ?thesis
    by (simp add: list_all_iff)
next
  case False
  have "spec_fold_case c = c"
  proof -
    from False capitals_smalls_length have "c \<notin> fst ` set (zip spec_capitals spec_smalls)"
      by (metis map_fst_zip set_map)
    then have "map_of (zip spec_capitals spec_smalls) c = None"
      by (simp add: map_of_eq_None_iff)
    then show ?thesis
      by (simp add: spec_fold_case_def)
  qed
  moreover have "lower_char c = c"
  proof -
    let ?n = "of_char c :: nat"
    have "\<not> ((65 \<le> ?n \<and> ?n \<le> 90) \<or> (192 \<le> ?n \<and> ?n \<le> 222 \<and> ?n \<noteq> 215))"
    proof
      assume "(65 \<le> ?n \<and> ?n \<le> 90) \<or> (192 \<le> ?n \<and> ?n \<le> 222 \<and> ?n \<noteq> 215)"
      then have "?n \<in> {65..<91} \<union> {192..<215} \<union> {216..<223}"
        by (simp only: Un_iff atLeastLessThan_iff) linarith
      also have "{65..<91} \<union> {192..<215} \<union> {216..<223}
          = set ([65..<91] @ [192..<215] @ [216..<223::nat])"
        by (simp only: set_append set_upt Un_assoc)
      finally have "?n \<in> set ([65..<91] @ [192..<215] @ [216..<223])" .
      with capital_codes have "char_of ?n \<in> set spec_capitals"
        unfolding list_all_iff by blast
      with False show False
        by simp
    qed
    then have "lower_char c = (if False then char_of (?n + 32) else c)"
      unfolding lower_char_def Let_def by (simp only: if_False)
    then show ?thesis
      by simp
  qed
  ultimately show ?thesis
    by simp
qed

lemma lower_spec_fold: "lower s = map spec_fold_case s"
  by (simp add: lower_def lower_char_table)

lemma spec_ci_substring_iff:
  "spec_ci_substring kw text \<longleftrightarrow> sublist (lower kw) (lower text)"
proof
  assume "spec_ci_substring kw text"
  then obtain u where u: "sublist u text" "lower u = lower kw"
    by (auto simp: spec_ci_substring_def lower_spec_fold)
  from u obtain ps ss where "text = ps @ u @ ss"
    by (auto simp: sublist_def)
  with u have "lower text = lower ps @ lower kw @ lower ss"
    by (simp add: lower_def)
  then show "sublist (lower kw) (lower text)"
    by simp
next
  assume "sublist (lower kw) (lower text)"
  then have "sublist (lower kw) (map lower_char text)"
    by (simp add: lower_def)
  then have "\<exists>u. sublist u text \<and> lower kw = map lower_char u"
    by (rule sublist_map_rightE)
  then show "spec_ci_substring kw text"
    by (auto simp: spec_ci_substring_def lower_spec_fold [symmetric] lower_def)
qed

text \<open>The keywords of the source are written in lower case, so matching them against the
  lowered question is matching up to case.\<close>

lemma keyword_match_iff:
  "lower kw = kw \<Longrightarrow> sublist kw (lower q) \<longleftrightarrow> spec_ci_substring kw q"
  by (simp add: spec_ci_substring_iff)

lemma group_match_iff:
  "list_all (\<lambda>kw. lower kw = kw) kws \<Longrightarrow>
   list_ex (\<lambda>keyword. sublist keyword (lower q)) kws \<longleftrightarrow> spec_group_matches q kws"
  by (auto simp: list_ex_iff list_all_iff spec_group_matches_def spec_ci_substring_iff)

lemma financial_keywords_lower: "list_all (\<lambda>kw. lower kw = kw) financial_keywords"
  by code_simp

lemma summary_keywords_lower: "list_all (\<lambda>kw. lower kw = kw) summary_keywords"
  by code_simp

lemma comparison_keywords_lower: "list_all (\<lambda>kw. lower kw = kw) comparison_keywords"
  by code_simp

lemma file_indicators_lower:
  "list_all (\<lambda>group. list_all (\<lambda>kw. lower kw = kw) (snd group)) file_indicators"
  by code_simp

lemma spec_style_rules_eq:
  "spec_style_rules =
     [(Financial, financial_keywords), (Summary, summary_keywords),
      (Comparison, comparison_keywords)]"
  by (simp add: spec_style_rules_def financial_keywords_def summary_keywords_def
      comparison_keywords_def)

lemma select_template_refines:
  "select_template q = template_of_style (spec_route_style q)"
  by (simp add: select_template_def spec_route_style_def spec_style_rules_eq
      group_match_iff [OF financial_keywords_lower] group_match_iff [OF summary_keywords_lower]
      group_match_iff [OF comparison_keywords_lower])

lemma first_indicator_find:
  "list_all (\<lambda>group. list_all (\<lambda>kw. lower kw = kw) (snd group)) groups \<Longrightarrow>
   first_indicator (lower q) groups =
     map_option fst (find (\<lambda>group. spec_group_matches q (snd group)) groups)"
  by (induction groups) (auto simp: group_match_iff)

lemma extract_file_filter_refines: "extract_file_filter q = spec_route_scope q"
  by (simp add: extract_file_filter_def spec_route_scope_def
      first_indicator_find [OF file_indicators_lower])

lemma revenue_example:
  "select_template ''What is Nike's revenue in 2023?'' = FINANCIAL_TEMPLATE"
  by code_simp

lemma summarize_example:
  "select_template ''Summarize my experience from my resume'' = SUMMARY_TEMPLATE"
  by code_simp

lemma templates_distinct:
  "distinct [BASIC_QA_TEMPLATE, FINANCIAL_TEMPLATE, SUMMARY_TEMPLATE, COMPARISON_TEMPLATE]"
  by (simp add: BASIC_QA_TEMPLATE_def FINANCIAL_TEMPLATE_def SUMMARY_TEMPLATE_def
      COMPARISON_TEMPLATE_def)

lemma spec_ci_substring_code [code]:
  "spec_ci_substring kw text = sublist (lower kw) (lower text)"
  by (rule spec_ci_substring_iff)

lemma revenue_style: "spec_route_style ''What is Nike's revenue in 2023?'' = Financial"
  by code_simp

lemma summarize_style: "spec_route_style ''Summarize my experience from my resume'' = Summary"
  by code_simp

text \<open>
  C7. Style selection matches the question, up to case, against the keyword sets in the
  priority order financial, summary, comparison; the first set with a keyword occurring in
  the question decides, and basic is the default. The function of the source computes the
  template of the style that the specification's rule table selects. The question
  "What is Nike's revenue in 2023?" is routed to the financial template and
  "Summarize my experience from my resume" to the summary template.
\<close>

theorem select_template_priority:
  "select_template q = template_of_style (spec_route_style q)
   \<and> spec_route_style ''What is Nike's revenue in 2023?'' = Financial
   \<and> select_template ''What is Nike's revenue in 2023?'' = FINANCIAL_TEMPLATE
   \<and> spec_route_style ''Summarize my experience from my resume'' = Summary
   \<and> select_template ''Summarize my experience from my resume'' = SUMMARY_TEMPLATE"
  using select_template_refines [of q] revenue_example summarize_example revenue_style
    summarize_style
  by simp

lemma compare_sales_style: "spec_route_style ''Compare the sales of both regions'' = Financial"
  by code_simp

theorem select_template_priority_witness:
  "spec_group_matches ''Compare the sales of both regions'' comparison_keywords
   \<and> select_template ''Compare the sales of both regions'' = FINANCIAL_TEMPLATE"
proof -
  have "spec_group_matches ''Compare the sales of both regions'' comparison_keywords"
    by code_simp
  moreover have "select_template ''Compare the sales of both regions''
      = template_of_style (spec_route_style ''Compare the sales of both regions'')"
    using select_template_priority [of "''Compare the sales of both regions''"] by blast
  ultimately show ?thesis
    by (simp add: compare_sales_style)
qed

lemma find_none_list_ex: "find P xs = None \<longleftrightarrow> \<not> list_ex P xs"
  by (induction xs) auto

text \<open>
  C8. Scope extraction matches the question, up to case, against the scope groups in the
  order resume, nike, research, business plan; the first group with a keyword occurring in
  the question gives the scope, and the result is none exactly when no keyword of any
  group occurs in the question.
\<close>

theorem extract_file_filter_first_group:
  "extract_file_filter q = spec_route_scope q
   \<and> spec_route_scope q
       = map_option fst (find (\<lambda>group. spec_group_matches q (snd group)) file_indicators)
   \<and> map fst file_indicators = [''resume'', ''nike'', ''research'', ''business plan'']
   \<and> (extract_file_filter q = None
        \<longleftrightarrow> \<not> list_ex (\<lambda>group. spec_group_matches q (snd group)) file_indicators)"
proof -
  have "extract_file_filter q = spec_route_scope q"
    by (rule extract_file_filter_refines)
  moreover have "map fst file_indicators = [''resume'', ''nike'', ''research'', ''business plan'']"
    by (simp add: file_indicators_def)
  moreover have "spec_route_scope q = None
      \<longleftrightarrow> \<not> list_ex (\<lambda>group. spec_group_matches q (snd group)) file_indicators"
    by (simp add: spec_route_scope_def find_none_list_ex)
  ultimately show ?thesis
    by (simp add: spec_route_scope_def)
qed

theorem extract_file_filter_first_group_witness:
  "spec_group_matches ''Compare my CV with the Nike annual report'' [''nike'', ''10k'', ''10-k'', ''annual report'']
   \<and> spec_route_scope ''Compare my CV with the Nike annual report'' = Some ''resume''
   \<and> \<not> list_ex (\<lambda>group. spec_group_matches ''How are you today?'' (snd group)) file_indicators"
proof -
  have a: "spec_group_matches ''Compare my CV with the Nike annual report''
      [''nike'', ''10k'', ''10-k'', ''annual report'']"
    by code_simp
  have b: "extract_file_filter ''Compare my CV with the Nike annual report'' = Some ''resume''"
    by code_simp
  have c: "extract_file_filter ''How are you today?'' = None"
    by code_simp
  from b have "spec_route_scope ''Compare my CV with the Nike annual report'' = Some ''resume''"
    using extract_file_filter_first_group [of "''Compare my CV with the Nike annual report''"]
    by simp
  moreover from c
  have "\<not> list_ex (\<lambda>group. spec_group_matches ''How are you today?'' (snd group)) file_indicators"
    using extract_file_filter_first_group [of "''How are you today?''"] by blast
  ultimately show ?thesis
    using a by blast
qed

section \<open>Properties of the index store\<close>

text \<open>
  C1, as the code has it. The claim says that rebuilding from an empty sequence of chunks
  fails with an error. Here the call on an empty sequence, in a calm environment and on a
  fresh store, does not raise: it returns the none value.
\<close>

theorem create_embeddings_empty_no_error:
  "fst (create_embeddings calm_env [] fresh_world) = Inr None
   \<and> \<not> isl (fst (create_embeddings calm_env [] fresh_world))"
  by (simp add: create_embeddings_def)

text \<open>
  C1, amended. For every empty sequence of chunks, in every environment and state,
  \<^verbatim>\<open>create_embeddings\<close> returns the none value; it neither raises nor returns a handle.
\<close>

theorem create_embeddings_empty_returns_none:
  "fst (create_embeddings env [] w) = Inr None"
  by (simp add: create_embeddings_def)

text \<open>
  C10. A call of \<^verbatim>\<open>create_embeddings\<close> with an empty sequence of chunks returns before
  the store is cleared: it makes no external call, the index directory and every
  generation in it are as before, and the only effect is one printed line.
\<close>

theorem create_embeddings_empty_frame:
  "snd (create_embeddings env [] w) = w\<lparr>stdout := stdout w @ [''No documents to process'']\<rparr>
   \<and> dir_exists (snd (create_embeddings env [] w)) = dir_exists w
   \<and> collections (snd (create_embeddings env [] w)) = collections w
   \<and> calls (snd (create_embeddings env [] w)) = calls w"
  by (simp add: create_embeddings_def print_line_def)

text \<open>
  C5, at the input where the code departs from the claim: the first enumerated generation
  holds no items, its count is read as 0 and printed, and the handle of this empty
  generation is returned all the same.
\<close>

theorem load_existing_vectorstore_empty_generation:
  "map_of (collections hollow_world) ''documents_1'' = Some 0
   \<and> fst (load_existing_vectorstore calm_env hollow_world)
       = Some \<lparr>collection_name = ''documents_1''\<rparr>
   \<and> stdout (snd (load_existing_vectorstore calm_env hollow_world))
       = [''Loaded existing vectorstore with 0 documents'']"
  by code_simp

section \<open>Properties of answering a question\<close>

lemma extract_file_filter_nonempty: "extract_file_filter q = Some f \<Longrightarrow> f \<noteq> []"
  by (auto simp: extract_file_filter_def file_indicators_def split: if_splits)

lemma resolve_filter_truthy: "resolve_filter q ff = Some f \<Longrightarrow> truthy (Some f)"
  by (cases ff) (auto simp: resolve_filter_def dest: extract_file_filter_nonempty split: if_splits)

lemma ask_try_no_vectorstore:
  "vectorstore eng = None \<Longrightarrow> isl (ask_try eng q ff)"
  by (simp add: ask_try_def)

lemma ask_try_retrieval_failure:
  "vectorstore eng = Some search \<Longrightarrow> search (if truthy ff then 8 else 6) q = Inl e \<Longrightarrow>
   ask_try eng q ff = Inl e"
  by (simp add: ask_try_def retrieval_qa_def)

lemma ask_try_generation_failure:
  "vectorstore eng = Some search \<Longrightarrow> search (if truthy ff then 8 else 6) q = Inr docs \<Longrightarrow>
   llm eng (format_prompt (select_template q) (stuff_documents docs) q) = Inl e \<Longrightarrow>
   ask_try eng q ff = Inl e"
  by (simp add: ask_try_def retrieval_qa_def)

lemma ask_try_success:
  "vectorstore eng = Some search \<Longrightarrow> search (if truthy ff then 8 else 6) q = Inr docs \<Longrightarrow>
   llm eng (format_prompt (select_template q) (stuff_documents docs) q) = Inr a \<Longrightarrow>
   ask_try eng q ff =
     Inr \<lparr>answer = a,
          sources = map format_source
            (case ff of
               None \<Rightarrow> docs
             | Some f \<Rightarrow>
                 if f = [] then docs
                 else if filtered_sources f docs \<noteq> [] then filtered_sources f docs
                 else docs),
          question = q, template_used = ''PromptTemplate'', file_filter = ff\<rparr>"
  by (simp add: ask_try_def retrieval_qa_def)

text \<open>
  C4. \<^verbatim>\<open>ask_question\<close> has no exceptional result. Whenever the body of its \<^verbatim>\<open>try\<close>
  block raises an exception \<open>e\<close> (the vector store is missing, the retrieval fails, or
  the model fails, see the three lemmas above), the result is the degraded outcome: the
  answer is the non-empty text "Error processing question: " followed by the message of
  \<open>e\<close>, the sources are empty, and \<^verbatim>\<open>template_used\<close> is "error".
\<close>

theorem ask_question_never_raises:
  "ask_try eng q (resolve_filter q ff) = Inl e \<Longrightarrow>
   ask_question eng q ff =
     \<lparr>answer = ''Error processing question: '' @ str_exn e, sources = [], question = q,
      template_used = ''error'', file_filter = resolve_filter q ff\<rparr>
   \<and> answer (ask_question eng q ff) \<noteq> []
   \<and> sources (ask_question eng q ff) = []
   \<and> template_used (ask_question eng q ff) = ''error''"
  by (simp add: ask_question_def)

lemma offline_fails:
  "ask_try offline_engine ''What is Nike's revenue in 2023?''
     (resolve_filter ''What is Nike's revenue in 2023?'' None) = Inl (Exn ''Connection refused'')"
  by code_simp

theorem ask_question_never_raises_witness:
  "ask_try offline_engine ''What is Nike's revenue in 2023?''
     (resolve_filter ''What is Nike's revenue in 2023?'' None) = Inl (Exn ''Connection refused'')
   \<and> answer (ask_question offline_engine ''What is Nike's revenue in 2023?'' None)
       = ''Error processing question: Connection refused''
   \<and> sources (ask_question offline_engine ''What is Nike's revenue in 2023?'' None) = []
   \<and> template_used (ask_question offline_engine ''What is Nike's revenue in 2023?'' None) = ''error''"
  using ask_question_never_raises [OF offline_fails] offline_fails by simp

lemma filtered_sources_spec:
  "filtered_sources f docs = filter (\<lambda>doc. spec_ci_substring f (source_path doc)) docs"
  by (simp add: filtered_sources_def spec_ci_substring_iff source_path_def)

lemma nike_capitals_match:
  "filtered_sources ''NIKE'' [nike_chunk, resume_chunk] = [nike_chunk]"
  by code_simp

lemma accented_capitals_match:
  "filtered_sources (''R'' @ [CHR 0xC9] @ ''SUM'' @ [CHR 0xC9]) [nike_chunk, cv_chunk]
     = [cv_chunk]"
  by code_simp

text \<open>
  C6. When a scope is set and retrieval and generation succeed, the retrieved chunks are
  filtered to those whose source path contains the scope as a case-insensitive substring,
  where equality up to case is read off the table of capital and small letters; the
  sources of the outcome are built from the filtered chunks, or from all retrieved chunks
  when the filter leaves none. So a non-empty retrieval never gives an empty source list.
  The scope NIKE, in capitals, keeps the chunk of Nike-10K.pdf and drops the chunk of the
  resume, and a scope in accented capitals keeps the chunk of the file named in accented
  small letters.
\<close>

theorem scope_filter_fallback:
  assumes "resolve_filter q ff = Some f"
    and "vectorstore eng = Some search"
    and "search 8 q = Inr docs"
    and "llm eng (format_prompt (select_template q) (stuff_documents docs) q) = Inr a"
  shows "filtered_sources f docs = filter (\<lambda>doc. spec_ci_substring f (source_path doc)) docs
   \<and> sources (ask_question eng q ff)
       = map format_source (if filtered_sources f docs = [] then docs else filtered_sources f docs)
   \<and> (docs \<noteq> [] \<longrightarrow> sources (ask_question eng q ff) \<noteq> [])
   \<and> filtered_sources ''NIKE'' [nike_chunk, resume_chunk] = [nike_chunk]
   \<and> filtered_sources (''R'' @ [CHR 0xC9] @ ''SUM'' @ [CHR 0xC9]) [nike_chunk, cv_chunk]
       = [cv_chunk]"
proof -
  from assms(1) have t: "truthy (Some f)"
    by (rule resolve_filter_truthy)
  then have k: "search (if truthy (Some f) then 8 else 6) q = Inr docs"
    using assms(3) by simp
  have "ask_try eng q (Some f) =
     Inr \<lparr>answer = a,
          sources = map format_source
            (case Some f of
               None \<Rightarrow> docs
             | Some f \<Rightarrow>
                 if f = [] then docs
                 else if filtered_sources f docs \<noteq> [] then filtered_sources f docs
                 else docs),
          question = q, template_used = ''PromptTemplate'', file_filter = Some f\<rparr>"
    using assms(2) k assms(4) by (rule ask_try_success)
  with t assms(1) have s: "sources (ask_question eng q ff)
       = map format_source (if filtered_sources f docs = [] then docs else filtered_sources f docs)"
    by (simp add: ask_question_def)
  have d: "docs \<noteq> [] \<longrightarrow> sources (ask_question eng q ff) \<noteq> []"
    by (simp add: s)
  from filtered_sources_spec [of f docs] s d nike_capitals_match accented_capitals_match
  show ?thesis
    by (intro conjI)
qed


lemma echo_store:
  "vectorstore echo_engine = Some (\<lambda>k query. Inr (take k [nike_chunk, resume_chunk]))"
  by (simp add: echo_engine_def)

lemma echo_search:
  "(\<lambda>k query. Inr (take k [nike_chunk, resume_chunk]) :: exn + document list) 8 q
     = Inr [nike_chunk, resume_chunk]"
  by simp

lemma echo_llm: "llm echo_engine p = Inr p"
  by (simp add: echo_engine_def)

lemma tesla_filter:
  "resolve_filter ''What is the revenue in 2023?'' (Some ''tesla'') = Some ''tesla''"
  by code_simp

lemma tesla_no_match: "filtered_sources ''tesla'' [nike_chunk, resume_chunk] = []"
  by code_simp

lemma nike_capitals_filter:
  "resolve_filter ''What is the revenue in 2023?'' (Some ''NIKE'') = Some ''NIKE''"
  by code_simp

theorem scope_filter_fallback_witness:
  "resolve_filter ''What is the revenue in 2023?'' (Some ''tesla'') = Some ''tesla''
   \<and> filtered_sources ''tesla'' [nike_chunk, resume_chunk] = []
   \<and> sources (ask_question echo_engine ''What is the revenue in 2023?'' (Some ''tesla''))
       = [format_source nike_chunk, format_source resume_chunk]
   \<and> resolve_filter ''What is the revenue in 2023?'' (Some ''NIKE'') = Some ''NIKE''
   \<and> filtered_sources ''NIKE'' [nike_chunk, resume_chunk] = [nike_chunk]
   \<and> sources (ask_question echo_engine ''What is the revenue in 2023?'' (Some ''NIKE''))
       = [format_source nike_chunk]"
  using scope_filter_fallback [OF tesla_filter echo_store echo_search echo_llm]
    scope_filter_fallback [OF nike_capitals_filter echo_store echo_search echo_llm]
    tesla_filter tesla_no_match nike_capitals_filter
  by simp

lemma nike_filter: "resolve_filter ''What is Nike's revenue in 2023?'' None = Some ''nike''"
  by code_simp

lemma nike_match: "filtered_sources ''nike'' [nike_chunk, resume_chunk] = [nike_chunk]"
  by code_simp

lemma nike_answer:
  "answer (ask_question echo_engine ''What is Nike's revenue in 2023?'' None)
     = format_prompt FINANCIAL_TEMPLATE (stuff_documents [nike_chunk, resume_chunk])
         ''What is Nike's revenue in 2023?''"
  by code_simp

lemma nike_answer_differs:
  "format_prompt FINANCIAL_TEMPLATE (stuff_documents [nike_chunk, resume_chunk])
         ''What is Nike's revenue in 2023?''
   \<noteq> format_prompt FINANCIAL_TEMPLATE (stuff_documents [nike_chunk])
         ''What is Nike's revenue in 2023?''"
  by (simp add: format_prompt_def stuff_documents_def nike_chunk_def resume_chunk_def)

text \<open>
  C2, as the code has it. The claim says that the context in the prompt given to the model
  consists of the texts of the scope-matching chunks only. The engine below answers with
  the prompt it receives. For the question about Nike the scope is "nike" and the filter
  keeps the Nike chunk alone, yet the prompt holds the texts of both retrieved chunks.
\<close>

theorem prompt_context_filtered_counterexample:
  "resolve_filter ''What is Nike's revenue in 2023?'' None = Some ''nike''
   \<and> filtered_sources ''nike'' [nike_chunk, resume_chunk] = [nike_chunk]
   \<and> answer (ask_question echo_engine ''What is Nike's revenue in 2023?'' None)
       = format_prompt FINANCIAL_TEMPLATE (stuff_documents [nike_chunk, resume_chunk])
           ''What is Nike's revenue in 2023?''
   \<and> answer (ask_question echo_engine ''What is Nike's revenue in 2023?'' None)
       \<noteq> format_prompt FINANCIAL_TEMPLATE
           (stuff_documents (filtered_sources ''nike'' [nike_chunk, resume_chunk]))
           ''What is Nike's revenue in 2023?''"
  using nike_filter nike_match nike_answer nike_answer_differs by simp

text \<open>
  C2, amended. For every question with a scope set, the prompt given to the model is the
  selected template filled with the question and with the texts of all retrieved chunks,
  joined by blank lines: the answer is the model's response to that prompt (or the error
  text when the model fails). The scope filter is applied afterwards and only to the
  sources of the outcome.
\<close>

theorem prompt_context_unfiltered:
  assumes "resolve_filter q ff = Some f"
    and "vectorstore eng = Some search"
    and "search 8 q = Inr docs"
  shows "answer (ask_question eng q ff)
      = (case llm eng (format_prompt (select_template q) (stuff_documents docs) q) of
           Inr a \<Rightarrow> a
         | Inl e \<Rightarrow> ''Error processing question: '' @ str_exn e)
   \<and> stuff_documents docs = join (nl @ nl) (map page_content docs)"
proof -
  from assms(1) have t: "truthy (Some f)"
    by (rule resolve_filter_truthy)
  then have k: "search (if truthy (Some f) then 8 else 6) q = Inr docs"
    using assms(3) by simp
  show ?thesis
  proof (cases "llm eng (format_prompt (select_template q) (stuff_documents docs) q)")
    case (Inl e)
    from assms(2) k Inl have "ask_try eng q (Some f) = Inl e"
      by (rule ask_try_generation_failure)
    with Inl assms(1) show ?thesis
      by (simp add: ask_question_def stuff_documents_def)
  next
    case (Inr a)
    note ask_try_success [OF assms(2) k Inr]
    with Inr assms(1) show ?thesis
      by (simp add: ask_question_def stuff_documents_def)
  qed
qed

theorem prompt_context_unfiltered_witness:
  "resolve_filter ''What is Nike's revenue in 2023?'' None = Some ''nike''
   \<and> answer (ask_question echo_engine ''What is Nike's revenue in 2023?'' None)
       = format_prompt (select_template ''What is Nike's revenue in 2023?'')
           (stuff_documents [nike_chunk, resume_chunk]) ''What is Nike's revenue in 2023?''"
  using prompt_context_unfiltered [OF nike_filter echo_store echo_search] nike_filter
  by (simp add: echo_llm)

section \<open>Recovery of a failed build\<close>

lemma print_line_counts [simp]:
  "builds_started (print_line s w) = builds_started w"
  "resets_announced (print_line s w)
     = resets_announced w + (if s = ''Attempting complete reset...'' then 1 else 0)"
  by (simp_all add: builds_started_def resets_announced_def print_line_def)


























end
